theory Spec2Isabelle
  imports Complex_Main
begin

section \<open>Orbital geometry of the asteroid tracker\<close>

text \<open>
  The embedding covers \<open>draw_orbit\<close>, \<open>calculate_position\<close> and the per-frame
  angle update of \<open>asteroid_tracker.py\<close>. Python floats are idealised as real
  numbers: arithmetic is exact and never overflows. The two ways a float
  computation of this code can leave the finite numbers are kept: a square root
  of a negative number (NumPy returns nan) and a division by zero (NumPy returns
  inf or nan). Python's \<open>int(...)\<close> raises on both, and that is the only place
  where these functions can raise.
\<close>

subsection \<open>Configuration constants\<close>

definition WIDTH :: int where
  "WIDTH = 1200"

definition HEIGHT :: int where
  "HEIGHT = 800"

definition CENTER :: "int \<times> int" where
  "CENTER = (WIDTH div 2, HEIGHT div 2)"

definition SCALE :: real where
  "SCALE = 150"

subsection \<open>Floats, errors and conversion to int\<close>

datatype error = ValueError | OverflowError

text \<open>A float value: a finite number, an infinity (of either sign) or nan.\<close>

datatype npfloat = Fin real | Inf | NaN

text \<open>\<open>np.sqrt\<close>: nan on a negative argument (a warning, no exception).\<close>

definition np_sqrt :: "real \<Rightarrow> npfloat" where
  "np_sqrt x = (if x < 0 then NaN else Fin (sqrt x))"

text \<open>Division with a NumPy float divisor: inf or nan on a zero divisor.\<close>

definition np_div :: "real \<Rightarrow> real \<Rightarrow> npfloat" where
  "np_div x y = (if y \<noteq> 0 then Fin (x / y) else if x = 0 then NaN else Inf)"

text \<open>Product of two float values; \<open>inf * 0\<close> is nan.\<close>

fun np_mul :: "npfloat \<Rightarrow> npfloat \<Rightarrow> npfloat" where
  "np_mul (Fin x) (Fin y) = Fin (x * y)"
| "np_mul NaN v = NaN"
| "np_mul u NaN = NaN"
| "np_mul Inf (Fin y) = (if y = 0 then NaN else Inf)"
| "np_mul (Fin x) Inf = (if x = 0 then NaN else Inf)"
| "np_mul Inf Inf = Inf"

text \<open>Python's \<open>int\<close> on a finite float truncates toward zero.\<close>

definition int_trunc :: "real \<Rightarrow> int" where
  "int_trunc x = (if 0 \<le> x then \<lfloor>x\<rfloor> else \<lceil>x\<rceil>)"

text \<open>Python's \<open>int\<close> on a float: OverflowError on inf, ValueError on nan.\<close>

fun py_int :: "npfloat \<Rightarrow> error + int" where
  "py_int (Fin x) = Inr (int_trunc x)"
| "py_int Inf = Inl OverflowError"
| "py_int NaN = Inl ValueError"

subsection \<open>Orbit records\<close>

text \<open>
  The dictionary \<open>orbit_params\<close>, reduced to the two keys the geometry reads.
  Both keys are present in every dictionary the program builds.
\<close>

record orbit_params =
  semi_major_axis :: real
  eccentricity :: real

text \<open>The arguments \<open>draw_orbit\<close> hands to \<open>cv2.ellipse\<close>: centre and axes.\<close>

record ellipse_geometry =
  center_x :: int
  center_y :: int
  semi_major_px :: int
  semi_minor_px :: int

subsection \<open>draw_orbit\<close>

text \<open>The values of \<open>a_pixels\<close> and \<open>e\<close> after the two substitutions.\<close>

definition orbit_a_pixels :: "orbit_params \<Rightarrow> real" where
  "orbit_a_pixels p =
     (let a_pixels = semi_major_axis p * SCALE
      in if a_pixels \<le> 0 then 1.0 * SCALE else a_pixels)"

definition orbit_e :: "orbit_params \<Rightarrow> real" where
  "orbit_e p = (let e = eccentricity p in if e \<ge> 1.0 then 0.9 else e)"

definition draw_orbit :: "orbit_params \<Rightarrow> error + ellipse_geometry" where
  "draw_orbit p =
     (let a_pixels = orbit_a_pixels p;
          e = orbit_e p;
          b_pixels = np_mul (Fin a_pixels) (np_sqrt (1 - e ^ 2));
          cx = fst CENTER + int_trunc (a_pixels * e);
          cy = snd CENTER
      in case py_int b_pixels of
           Inl err \<Rightarrow> Inl err
         | Inr b \<Rightarrow> Inr \<lparr>center_x = cx, center_y = cy,
                         semi_major_px = int_trunc a_pixels, semi_minor_px = b\<rparr>)"

subsection \<open>calculate_position\<close>

text \<open>The clamped \<open>a\<close> and \<open>e\<close>, the denominator and the radial distance \<open>r\<close>.\<close>

definition position_a :: "orbit_params \<Rightarrow> real" where
  "position_a p = max (semi_major_axis p) 0.1"

definition position_e :: "orbit_params \<Rightarrow> real" where
  "position_e p = min (max (eccentricity p) 0) 0.99"

definition position_denominator :: "orbit_params \<Rightarrow> real \<Rightarrow> real" where
  "position_denominator p angle_rad = 1 + position_e p * cos angle_rad"

definition position_r :: "orbit_params \<Rightarrow> real \<Rightarrow> npfloat" where
  "position_r p angle_rad =
     np_div (position_a p * (1 - position_e p ^ 2)) (position_denominator p angle_rad)"

definition calculate_position :: "orbit_params \<Rightarrow> real \<Rightarrow> error + (int \<times> int)" where
  "calculate_position p angle_rad =
     (let r = position_r p angle_rad;
          x = np_mul r (Fin (cos angle_rad));
          y = np_mul r (Fin (sin angle_rad))
      in case py_int (np_mul x (Fin SCALE)) of
           Inl err \<Rightarrow> Inl err
         | Inr ix \<Rightarrow>
             (case py_int (np_mul y (Fin SCALE)) of
                Inl err \<Rightarrow> Inl err
              | Inr iy \<Rightarrow> Inr (fst CENTER + ix, snd CENTER - iy)))"

subsection \<open>Angle update of the animation loop\<close>



section \<open>Basic facts\<close>

lemma CENTER_eq: "CENTER = (600, 400)"
  by (simp add: CENTER_def WIDTH_def HEIGHT_def)

lemma int_trunc_minus: "int_trunc (- x) = - int_trunc x"
  by (auto simp: int_trunc_def ceiling_def)

lemma position_e_range: "0 \<le> position_e p \<and> position_e p \<le> 0.99"
  by (simp add: position_e_def)


lemma position_denominator_lower: "0.01 \<le> position_denominator p t"
proof -
  have e0: "0 \<le> position_e p" and e1: "position_e p \<le> 0.99"
    using position_e_range [of p] by simp_all
  have "- 1 \<le> cos t" by simp
  then have "position_e p * (- 1) \<le> position_e p * cos t"
    using e0 by (rule mult_left_mono)
  then show ?thesis
    using e1 by (simp add: position_denominator_def)
qed

lemma position_denominator_nonzero: "position_denominator p t \<noteq> 0"
  using position_denominator_lower [of p t] by simp

lemma position_r_fin:
  "position_r p t =
     Fin (position_a p * (1 - position_e p ^ 2) / position_denominator p t)"
  by (simp add: position_r_def np_div_def position_denominator_nonzero)

lemma calculate_position_eq:
  "calculate_position p t =
     Inr (fst CENTER
            + int_trunc (position_a p * (1 - position_e p ^ 2) / position_denominator p t
                          * cos t * SCALE),
          snd CENTER
            - int_trunc (position_a p * (1 - position_e p ^ 2) / position_denominator p t
                          * sin t * SCALE))"
  by (simp add: calculate_position_def position_r_fin)

lemma int_trunc_eqI:
  assumes "0 \<le> n" and "of_int n \<le> x" and "x < of_int n + 1"
  shows "int_trunc x = n"
proof -
  from assms(1,2) have "0 \<le> x" by linarith
  moreover from assms(2,3) have "\<lfloor>x\<rfloor> = n" by (rule floor_unique)
  ultimately show ?thesis by (simp add: int_trunc_def)
qed




lemma orbit_e_less_one: "orbit_e p < 1"
  by (simp add: orbit_e_def Let_def)

lemma orbit_a_pixels_pos: "0 < orbit_a_pixels p"
  by (simp add: orbit_a_pixels_def Let_def SCALE_def not_le)

lemma np_sqrt_fin:
  assumes "- 1 \<le> e" and "e \<le> 1"
  shows "np_sqrt (1 - e ^ 2) = Fin (sqrt (1 - e ^ 2))"
proof -
  from assms have "\<bar>e\<bar> \<le> 1" by simp
  then have "e ^ 2 \<le> 1" by (simp add: abs_square_le_1)
  then show ?thesis by (simp add: np_sqrt_def)
qed

lemma draw_orbit_fin:
  assumes "- 1 \<le> orbit_e p"
  shows "draw_orbit p =
     Inr \<lparr>center_x = fst CENTER + int_trunc (orbit_a_pixels p * orbit_e p),
          center_y = snd CENTER,
          semi_major_px = int_trunc (orbit_a_pixels p),
          semi_minor_px = int_trunc (orbit_a_pixels p * sqrt (1 - orbit_e p ^ 2))\<rparr>"
proof -
  have "orbit_e p \<le> 1" using orbit_e_less_one [of p] by simp
  with assms have "np_sqrt (1 - orbit_e p ^ 2) = Fin (sqrt (1 - orbit_e p ^ 2))"
    by (rule np_sqrt_fin)
  then show ?thesis by (simp add: draw_orbit_def Let_def)
qed

subsection \<open>Concrete square-root bounds and the substitutions\<close>

lemma sqrt_19_lower: "(65::real) \<le> 150 * sqrt (19 / 100)"
proof -
  have "(65 / 150)\<^sup>2 \<le> (19 / 100 :: real)" by (simp add: power2_eq_square)
  then have "65 / 150 \<le> sqrt (19 / 100)" by (rule real_le_rsqrt)
  then show ?thesis by simp
qed

lemma sqrt_19_upper: "150 * sqrt (19 / 100) < (66 :: real)"
proof -
  have "(19 / 100 :: real) < (66 / 150)\<^sup>2" by (simp add: power2_eq_square)
  then have "sqrt (19 / 100) < 66 / 150" by (intro real_less_lsqrt) simp_all
  then show ?thesis by simp
qed

lemma draw_orbit_degenerate_value:
  "draw_orbit \<lparr>semi_major_axis = 0, eccentricity = 1\<rparr>
   = Inr \<lparr>center_x = 735, center_y = 400, semi_major_px = 150, semi_minor_px = 65\<rparr>"
proof -
  let ?p = "\<lparr>semi_major_axis = 0, eccentricity = 1\<rparr>"
  have oe: "orbit_e ?p = 9 / 10" by (simp add: orbit_e_def)
  have oa: "orbit_a_pixels ?p = 150" by (simp add: orbit_a_pixels_def SCALE_def)
  have sq: "1 - (9 / 10)\<^sup>2 = (19 / 100 :: real)" by (simp add: power2_eq_square)
  have b: "int_trunc (150 * sqrt (19 / 100)) = 65"
    using sqrt_19_lower sqrt_19_upper by (intro int_trunc_eqI) simp_all
  have cx: "int_trunc (150 * (9 / 10)) = 135" by (simp add: int_trunc_def)
  have ax: "int_trunc 150 = 150" by (simp add: int_trunc_def)
  have "- 1 \<le> orbit_e ?p" by (simp add: oe)
  then have "draw_orbit ?p =
     Inr \<lparr>center_x = fst CENTER + int_trunc (orbit_a_pixels ?p * orbit_e ?p),
          center_y = snd CENTER,
          semi_major_px = int_trunc (orbit_a_pixels ?p),
          semi_minor_px = int_trunc (orbit_a_pixels ?p * sqrt (1 - orbit_e ?p ^ 2))\<rparr>"
    by (rule draw_orbit_fin)
  also have "\<dots> = Inr \<lparr>center_x = 735, center_y = 400, semi_major_px = 150, semi_minor_px = 65\<rparr>"
    unfolding oe oa sq b cx ax CENTER_eq by simp
  finally show ?thesis .
qed

lemma orbit_a_pixels_subst:
  "semi_major_axis p * SCALE \<le> 0 \<Longrightarrow> orbit_a_pixels p = 1.0 * SCALE"
  by (simp add: orbit_a_pixels_def Let_def)

lemma orbit_e_subst: "eccentricity p \<ge> 1.0 \<Longrightarrow> orbit_e p = 0.9"
  by (simp add: orbit_e_def Let_def)



subsection \<open>Truncation and the radial distance\<close>





section \<open>Claims about calculate_position\<close>

text \<open>
  C1 (as the specification states it): for semi-major axis 1.46 AU and
  eccentricity 0.23 at angle 0 the function returns the screen point (769, 400).
  The code does not: it truncates 168.63 to 168 and returns (768, 400).
\<close>

theorem calculate_position_eros_not_769:
  "calculate_position \<lparr>semi_major_axis = 1.46, eccentricity = 0.23\<rparr> 0 \<noteq> Inr (769, 400)"
  by (simp add: calculate_position_eq CENTER_eq position_a_def position_e_def
        position_denominator_def SCALE_def int_trunc_def power2_eq_square)

text \<open>
  C1 (amended): for semi-major axis 1.46 AU and eccentricity 0.23 at angle 0,
  \<open>calculate_position\<close> returns (768, 400), that is
  (600 + trunc(1.46 * (1 - 0.23) * 150), 400) with truncation toward zero.
\<close>

theorem calculate_position_eros:
  "calculate_position \<lparr>semi_major_axis = 1.46, eccentricity = 0.23\<rparr> 0 = Inr (768, 400)"
  by (simp add: calculate_position_eq CENTER_eq position_a_def position_e_def
        position_denominator_def SCALE_def int_trunc_def power2_eq_square)







text \<open>
  C9: \<open>calculate_position\<close> is symmetric about the horizontal line through the
  canvas centre: for every input and every angle, the points at angle and at
  -angle have the same screen x, and their screen y offsets from CENTER.y are
  exact negations of each other.
\<close>

theorem calculate_position_mirror:
  "\<exists>x dy. calculate_position p angle_rad = Inr (x, snd CENTER - dy)
         \<and> calculate_position p (- angle_rad) = Inr (x, snd CENTER + dy)"
  by (simp add: calculate_position_eq position_denominator_def int_trunc_minus)



section \<open>Claims about draw_orbit\<close>

text \<open>
  C2: for every real input pair and every angle, both the geometry computation
  of \<open>draw_orbit\<close> and \<open>calculate_position\<close> return finite integer pixel
  values without raising. The code of \<open>draw_orbit\<close> does not: its check
  replaces only eccentricities of at least 1, so for an eccentricity below -1
  the square root of 1 - e e is nan and \<open>int(b_pixels)\<close> raises ValueError.
  At semi-major axis 1.0 and eccentricity -2.0:
\<close>

theorem draw_orbit_raises_below_minus_one:
  "draw_orbit \<lparr>semi_major_axis = 1.0, eccentricity = - 2.0\<rparr> = Inl ValueError"
  by (simp add: draw_orbit_def orbit_a_pixels_def orbit_e_def SCALE_def np_sqrt_def)




text \<open>
  C4: if semi_major_axis * SCALE \<le> 0, \<open>draw_orbit\<close> proceeds as if the scaled
  axis were 1.0 * SCALE; if eccentricity \<ge> 1.0, it proceeds as if the
  eccentricity were 0.9. The degenerate input with semi-major axis 0 and
  eccentricity 1.0 gives the geometry of a = 1.0 AU and e = 0.9, which is the
  ellipse with centre (735, 400) and axes (150, 65).
\<close>

theorem draw_orbit_substitution:
  "(semi_major_axis p * SCALE \<le> 0 \<longrightarrow>
      orbit_a_pixels p = 1.0 * SCALE
      \<and> draw_orbit p = draw_orbit (p\<lparr>semi_major_axis := 1.0\<rparr>))
   \<and> (eccentricity p \<ge> 1.0 \<longrightarrow>
      orbit_e p = 0.9
      \<and> draw_orbit p = draw_orbit (p\<lparr>eccentricity := 0.9\<rparr>))
   \<and> draw_orbit \<lparr>semi_major_axis = 0, eccentricity = 1.0\<rparr>
       = draw_orbit \<lparr>semi_major_axis = 1.0, eccentricity = 0.9\<rparr>
   \<and> draw_orbit \<lparr>semi_major_axis = 0, eccentricity = 1.0\<rparr>
       = Inr \<lparr>center_x = 735, center_y = 400, semi_major_px = 150, semi_minor_px = 65\<rparr>"
proof (intro conjI impI)
  assume "semi_major_axis p * SCALE \<le> 0"
  then show "orbit_a_pixels p = 1.0 * SCALE" by (rule orbit_a_pixels_subst)
next
  assume "semi_major_axis p * SCALE \<le> 0"
  then show "draw_orbit p = draw_orbit (p\<lparr>semi_major_axis := 1.0\<rparr>)"
    by (simp add: draw_orbit_def orbit_a_pixels_def orbit_e_def SCALE_def)
next
  assume "eccentricity p \<ge> 1.0"
  then show "orbit_e p = 0.9" by (rule orbit_e_subst)
next
  assume "eccentricity p \<ge> 1.0"
  then show "draw_orbit p = draw_orbit (p\<lparr>eccentricity := 0.9\<rparr>)"
    by (simp add: draw_orbit_def orbit_a_pixels_def orbit_e_def)
next
  show "draw_orbit \<lparr>semi_major_axis = 0, eccentricity = 1.0\<rparr>
       = draw_orbit \<lparr>semi_major_axis = 1.0, eccentricity = 0.9\<rparr>"
    by (simp add: draw_orbit_def orbit_a_pixels_def orbit_e_def SCALE_def)
next
  show "draw_orbit \<lparr>semi_major_axis = 0, eccentricity = 1.0\<rparr>
       = Inr \<lparr>center_x = 735, center_y = 400, semi_major_px = 150, semi_minor_px = 65\<rparr>"
    using draw_orbit_degenerate_value by simp
qed

theorem draw_orbit_substitution_witness:
  "semi_major_axis \<lparr>semi_major_axis = - 2, eccentricity = 3\<rparr> * SCALE \<le> 0
   \<and> eccentricity \<lparr>semi_major_axis = - 2, eccentricity = 3\<rparr> \<ge> 1.0
   \<and> orbit_a_pixels \<lparr>semi_major_axis = - 2, eccentricity = 3\<rparr> = 1.0 * SCALE
   \<and> draw_orbit \<lparr>semi_major_axis = - 2, eccentricity = 3\<rparr>
       = draw_orbit (\<lparr>semi_major_axis = - 2, eccentricity = 3\<rparr>\<lparr>semi_major_axis := 1.0\<rparr>)
   \<and> orbit_e \<lparr>semi_major_axis = - 2, eccentricity = 3\<rparr> = 0.9
   \<and> draw_orbit \<lparr>semi_major_axis = - 2, eccentricity = 3\<rparr>
       = draw_orbit (\<lparr>semi_major_axis = - 2, eccentricity = 3\<rparr>\<lparr>eccentricity := 0.9\<rparr>)"
proof -
  let ?p = "\<lparr>semi_major_axis = - 2, eccentricity = 3\<rparr>"
  have h1: "semi_major_axis ?p * SCALE \<le> 0" by (simp add: SCALE_def)
  have h2: "eccentricity ?p \<ge> 1.0" by simp
  show ?thesis
    using h1 h2 draw_orbit_substitution [of ?p] by blast
qed

section \<open>Claims about the angle update\<close>



end
